theory Spec2Isabelle
  imports Main "HOL-Library.AList"
begin

section \<open>Data model\<close>

text \<open>
  A commit as \<^verbatim>\<open>git_commit_graph.py\<close> reads it from the version-control library: the
  attributes \<^verbatim>\<open>hexsha\<close>, \<^verbatim>\<open>author.name\<close>, \<^verbatim>\<open>authored_date\<close> (seconds since the epoch)
  and \<^verbatim>\<open>message\<close>.
\<close>

record commit =
  hexsha :: string
  author_name :: string
  authored_date :: int
  message :: string

text \<open>
  A Python \<^verbatim>\<open>dict\<close> is an association list in insertion order whose keys are distinct;
  \<^verbatim>\<open>d[k] = v\<close> is \<^const>\<open>AList.update\<close> (an existing key keeps its place, a new one
  goes to the end), \<^verbatim>\<open>len(d)\<close> is \<^const>\<open>length\<close> and \<^verbatim>\<open>d.items()\<close> is the list itself.
\<close>

type_synonym ('k, 'v) dict = "('k \<times> 'v) list"

definition is_dict :: "('k, 'v) dict \<Rightarrow> bool" where
  "is_dict d = distinct (map fst d)"

text \<open>The Branch collection: branch display name to the commits of that branch.\<close>

type_synonym collection = "(string, commit list) dict"

section \<open>The version-control library, as the script uses it\<close>

text \<open>
  The exceptions the script can meet. \<^verbatim>\<open>git.Repo\<close> raises \<^verbatim>\<open>InvalidGitRepositoryError\<close>
  for a directory that holds no repository and \<^verbatim>\<open>NoSuchPathError\<close> for a missing path;
  \<^verbatim>\<open>iter_commits\<close> raises \<^verbatim>\<open>GitCommandError\<close> (with its text) when the underlying command
  fails.
\<close>

datatype py_exception =
    InvalidGitRepositoryError
  | NoSuchPathError
  | GitCommandError string
  | OtherError string

text \<open>A remote with its name and the \<^verbatim>\<open>name\<close> of each of its refs, in the order of \<^verbatim>\<open>remote.refs\<close>.\<close>

record remote =
  remote_name :: string
  refs :: "string list"

text \<open>
  The repository handle: the names of \<^verbatim>\<open>repo.branches\<close>, \<^verbatim>\<open>repo.remotes\<close>, and the
  history traversal \<^verbatim>\<open>repo.iter_commits(rev, since=...)\<close>. The traversal is the
  library's; it is a field of the handle, and what it returns for a revision and a
  \<^verbatim>\<open>since\<close> string is whatever the repository at hand holds.
\<close>

record repo =
  branches :: "string list"
  remotes :: "remote list"
  iter_commits :: "string \<Rightarrow> string \<Rightarrow> py_exception + commit list"

text \<open>Lines written to the console, one constructor per \<^verbatim>\<open>print\<close> of the script.\<close>

datatype message =
    NotAValidRepository string
  | FoundBranches nat
  | BranchCommits string nat
  | CouldNotAccessBranch string string
  | NoCommitsFound
  | InvalidDateFormat
  | CollectingCommits string string
  | TimelineSaved string
  | NetworkSaved string
  | SummarySaved string
  | GeneratedFiles string string string

text \<open>
  How a call ends when it does not return: \<^verbatim>\<open>sys.exit(n)\<close>, or an exception that no
  handler of the script catches.
\<close>

datatype abort = SystemExit nat | Uncaught py_exception

section \<open>Dates\<close>

text \<open>
  A \<^verbatim>\<open>datetime\<close>; \<^verbatim>\<open>replace(tzinfo=timezone.utc)\<close> changes none of these fields.
  \<^verbatim>\<open>strftime('%Y-%m-%d')\<close> prints the year on four digits and month and day on two.
\<close>

record datetime =
  year :: nat
  month :: nat
  day :: nat
  hour :: nat
  minute :: nat
  second :: nat

definition digit_char :: "nat \<Rightarrow> char" where
  "digit_char n = ''0123456789'' ! (n mod 10)"

primrec zero_padded :: "nat \<Rightarrow> nat \<Rightarrow> string" where
  "zero_padded 0 n = []"
| "zero_padded (Suc w) n = zero_padded w (n div 10) @ [digit_char n]"

definition strftime :: "datetime \<Rightarrow> string" where
  "strftime d = zero_padded 4 (year d) @ ''-'' @ zero_padded 2 (month d) @ ''-'' @ zero_padded 2 (day d)"

section \<open>Collector: \<^verbatim>\<open>get_all_commits_from_date\<close>\<close>

text \<open>Python's \<^verbatim>\<open>s.split(sep)\<close> for a one-character separator: never an empty list.\<close>

fun py_split :: "char \<Rightarrow> string \<Rightarrow> string list" where
  "py_split sep [] = [[]]"
| "py_split sep (c # cs) =
     (if c = sep then [] # py_split sep cs
      else (case py_split sep cs of
              [] \<Rightarrow> [[c]]
            | w # ws \<Rightarrow> (c # w) # ws))"

text \<open>Lines 54 to 57: the refs of one remote, appended to the list \<^verbatim>\<open>branches\<close> unless already there.\<close>

fun add_refs :: "string \<Rightarrow> string list \<Rightarrow> string list \<Rightarrow> string list" where
  "add_refs rname [] branch_list = branch_list"
| "add_refs rname (ref_name # rest) branch_list =
     (let branch_name = rname @ ''/'' @ last (py_split CHR ''/'' ref_name)
      in add_refs rname rest
           (if branch_name \<notin> set branch_list then branch_list @ [branch_name] else branch_list))"

text \<open>Line 53: every remote in turn.\<close>

fun add_remotes :: "remote list \<Rightarrow> string list \<Rightarrow> string list" where
  "add_remotes [] branch_list = branch_list"
| "add_remotes (r # rs) branch_list = add_remotes rs (add_refs (remote_name r) (refs r) branch_list)"

text \<open>Lines 46 to 57: the local branch names first, then the remote ones.\<close>

definition enumerate_branches :: "repo \<Rightarrow> string list" where
  "enumerate_branches r = add_remotes (remotes r) (branches r)"

text \<open>
  Lines 62 to 76. A branch whose traversal yields no commit is not stored; a
  \<^verbatim>\<open>GitCommandError\<close> is reported and the branch skipped; any other exception leaves the
  function.
\<close>

fun collect :: "repo \<Rightarrow> string \<Rightarrow> string list \<Rightarrow> message list \<Rightarrow> collection
                \<Rightarrow> message list \<times> (abort + collection)" where
  "collect r since_str [] out all_commits = (out, Inr all_commits)"
| "collect r since_str (branch_name # rest) out all_commits =
     (case iter_commits r branch_name since_str of
        Inr commits \<Rightarrow>
          (if commits \<noteq> []
           then collect r since_str rest (out @ [BranchCommits branch_name (length commits)])
                  (AList.update branch_name commits all_commits)
           else collect r since_str rest out all_commits)
      | Inl e \<Rightarrow>
          (case e of
             GitCommandError txt \<Rightarrow>
               collect r since_str rest (out @ [CouldNotAccessBranch branch_name txt]) all_commits
           | _ \<Rightarrow> (out, Inl (Uncaught e))))"

text \<open>
  The whole function. \<^verbatim>\<open>Repo\<close> stands for \<^verbatim>\<open>git.Repo\<close>: what opening a path gives on
  the machine at hand.
\<close>

definition get_all_commits_from_date ::
  "(string \<Rightarrow> py_exception + repo) \<Rightarrow> string \<Rightarrow> datetime \<Rightarrow> message list \<times> (abort + collection)" where
  "get_all_commits_from_date Repo repo_path since_date =
     (case Repo repo_path of
        Inl e \<Rightarrow>
          (if e = InvalidGitRepositoryError
           then ([NotAValidRepository repo_path], Inl (SystemExit 1))
           else ([], Inl (Uncaught e)))
      | Inr r \<Rightarrow>
          (let branch_list = enumerate_branches r
           in collect r (strftime since_date) branch_list [FoundBranches (length branch_list)] []))"

section \<open>Summarizer: \<^verbatim>\<open>create_summary_stats\<close>\<close>

record branch_stat =
  commit_count :: nat
  unique_authors :: nat
  authors :: "string list"
  latest_commit :: "int option"
  oldest_commit :: "int option"

record summary =
  total_branches :: nat
  total_commits :: nat
  branch_stats :: "(string, branch_stat) dict"

text \<open>
  The dictionary stored for one branch (lines 214 to 221). \<^verbatim>\<open>list(set(...))\<close> keeps one
  copy of each name in an order Python does not specify; \<^const>\<open>remdups\<close> is one such
  order. \<^verbatim>\<open>commits[0]\<close> and \<^verbatim>\<open>commits[-1]\<close> are read only under \<^verbatim>\<open>if commits\<close>.
\<close>

definition branch_entry :: "commit list \<Rightarrow> branch_stat" where
  "branch_entry commits =
     (let authors = remdups (map author_name commits)
      in \<lparr> commit_count = length commits,
           unique_authors = length authors,
           authors = authors,
           latest_commit = (if commits \<noteq> [] then Some (authored_date (hd commits)) else None),
           oldest_commit = (if commits \<noteq> [] then Some (authored_date (last commits)) else None) \<rparr>)"

text \<open>The loop of lines 212 to 221 over \<^verbatim>\<open>all_commits.items()\<close>.\<close>

fun stats_loop :: "collection \<Rightarrow> (string, branch_stat) dict \<Rightarrow> (string, branch_stat) dict" where
  "stats_loop [] stats = stats"
| "stats_loop ((branch, commits) # rest) stats =
     (if commits \<noteq> []
      then stats_loop rest (AList.update branch (branch_entry commits) stats)
      else stats_loop rest stats)"

text \<open>The summary that \<^verbatim>\<open>create_summary_stats\<close> hands to \<^verbatim>\<open>json.dump\<close>.\<close>

definition create_summary_stats :: "collection \<Rightarrow> summary" where
  "create_summary_stats all_commits =
     \<lparr> total_branches = length all_commits,
       total_commits = sum_list (map (\<lambda>commits. length commits) (map snd all_commits)),
       branch_stats = stats_loop all_commits [] \<rparr>"

section \<open>Timeline renderer: \<^verbatim>\<open>create_commit_timeline_graph\<close>\<close>

text \<open>
  What is drawn for one branch: the tick label, one point per commit at its authored
  time, and the annotation with the number of commits, placed at the latest point.
\<close>

record timeline_row =
  label :: string
  points :: "int list"
  annotation :: "(int \<times> nat) option"

definition tick_label :: "string \<Rightarrow> string" where
  "tick_label name = (if length name > 30 then take 30 name @ ''...'' else name)"

definition timeline_rows :: "collection \<Rightarrow> timeline_row list" where
  "timeline_rows all_commits =
     map (\<lambda>(branch, commits).
            let dates = map authored_date commits
            in \<lparr> label = tick_label branch,
                 points = dates,
                 annotation = (if dates \<noteq> [] then Some (Max (set dates), length commits) else None) \<rparr>)
         all_commits"

section \<open>Network renderer: \<^verbatim>\<open>create_commit_network_graph\<close>\<close>

text \<open>
  A node's attribute dictionary. \<^verbatim>\<open>add_node(n, **attr)\<close> creates the node when it is
  new and otherwise updates the attributes it names, leaving the others.
\<close>

record node_attrs =
  node_type :: "string option"
  node_commit_count :: "nat option"
  node_author :: "string option"
  node_date :: "int option"
  node_message :: "string option"

definition no_attrs :: node_attrs where
  "no_attrs = \<lparr> node_type = None, node_commit_count = None, node_author = None,
                 node_date = None, node_message = None \<rparr>"

record graph =
  nodes :: "(string, node_attrs) dict"
  edges :: "(string \<times> string) list"

definition empty_graph :: graph where
  "empty_graph = \<lparr> nodes = [], edges = [] \<rparr>"

definition add_node :: "string \<Rightarrow> (node_attrs \<Rightarrow> node_attrs) \<Rightarrow> graph \<Rightarrow> graph" where
  "add_node n attr G =
     G\<lparr> nodes := (case map_of (nodes G) n of
                     None \<Rightarrow> nodes G @ [(n, attr no_attrs)]
                   | Some a \<Rightarrow> AList.update n (attr a) (nodes G)) \<rparr>"

definition ensure_node :: "string \<Rightarrow> (string, node_attrs) dict \<Rightarrow> (string, node_attrs) dict" where
  "ensure_node n ns = (case map_of ns n of None \<Rightarrow> ns @ [(n, no_attrs)] | Some a \<Rightarrow> ns)"

definition add_edge :: "string \<Rightarrow> string \<Rightarrow> graph \<Rightarrow> graph" where
  "add_edge u v G =
     G\<lparr> nodes := ensure_node v (ensure_node u (nodes G)),
        edges := (if (u, v) \<in> set (edges G) then edges G else edges G @ [(u, v)]) \<rparr>"

definition branch_attrs :: "nat \<Rightarrow> node_attrs \<Rightarrow> node_attrs" where
  "branch_attrs n a = a\<lparr> node_type := Some ''branch'', node_commit_count := Some n \<rparr>"

definition commit_attrs :: "commit \<Rightarrow> node_attrs \<Rightarrow> node_attrs" where
  "commit_attrs c a =
     a\<lparr> node_type := Some ''commit'',
        node_author := Some (author_name c),
        node_date := Some (authored_date c),
        node_message := Some (take 50 (message c)) \<rparr>"

text \<open>Lines 159 to 166: the commits of one branch, already cut to the first ten.\<close>

fun add_commit_nodes :: "string \<Rightarrow> commit list \<Rightarrow> graph \<Rightarrow> graph" where
  "add_commit_nodes branch [] G = G"
| "add_commit_nodes branch (c # cs) G =
     (let commit_id = take 8 (hexsha c)
      in add_commit_nodes branch cs (add_edge branch commit_id (add_node commit_id (commit_attrs c) G)))"

text \<open>Lines 154 to 166.\<close>

fun build_graph :: "collection \<Rightarrow> graph \<Rightarrow> graph" where
  "build_graph [] G = G"
| "build_graph ((branch, commits) # rest) G =
     build_graph rest
       (add_commit_nodes branch (take 10 commits) (add_node branch (branch_attrs (length commits)) G))"

text \<open>Lines 175 and 180: the nodes drawn as branches and as commits.\<close>

definition branch_nodes :: "graph \<Rightarrow> string list" where
  "branch_nodes G = map fst (filter (\<lambda>(n, a). node_type a = Some ''branch'') (nodes G))"


section \<open>Output files\<close>

datatype artifact =
    TimelinePNG "timeline_row list"
  | NetworkPNG graph
  | SummaryJSON summary

type_synonym written = "(string \<times> artifact) list"

definition create_commit_timeline_graph :: "collection \<Rightarrow> string \<Rightarrow> message list \<times> written" where
  "create_commit_timeline_graph all_commits output_file =
     (if all_commits = [] then ([NoCommitsFound], [])
      else ([TimelineSaved output_file], [(output_file, TimelinePNG (timeline_rows all_commits))]))"

definition create_commit_network_graph :: "collection \<Rightarrow> string \<Rightarrow> message list \<times> written" where
  "create_commit_network_graph all_commits output_file =
     (if all_commits = [] then ([NoCommitsFound], [])
      else ([NetworkSaved output_file],
            [(output_file, NetworkPNG (build_graph all_commits empty_graph))]))"

definition write_summary_stats :: "collection \<Rightarrow> string \<Rightarrow> message list \<times> written" where
  "write_summary_stats all_commits output_file =
     ([SummarySaved output_file], [(output_file, SummaryJSON (create_summary_stats all_commits))])"

section \<open>The program: \<^verbatim>\<open>main\<close>\<close>

record args =
  since :: string
  repo_path :: string
  output_dir :: string

text \<open>\<^verbatim>\<open>os.path.join(d, name)\<close> for a relative \<^verbatim>\<open>name\<close>.\<close>

definition path_join :: "string \<Rightarrow> string \<Rightarrow> string" where
  "path_join d name = (if d = [] \<or> last d = CHR ''/'' then d @ name else d @ ''/'' @ name)"

text \<open>
  A run of the program: how the process ends, what it printed and which files it wrote.
  Returning from \<^verbatim>\<open>main\<close> is exit code 0; an exception nobody catches ends the
  interpreter with exit code 1.
\<close>

record run =
  ended :: "abort option"
  console :: "message list"
  files :: written

definition exit_code :: "run \<Rightarrow> nat" where
  "exit_code r = (case ended r of None \<Rightarrow> 0 | Some (SystemExit n) \<Rightarrow> n | Some (Uncaught e) \<Rightarrow> 1)"

text \<open>
  \<^verbatim>\<open>strptime\<close> stands for \<^verbatim>\<open>datetime.strptime(_, '%Y-%m-%d')\<close>, \<^const>\<open>None\<close> being its
  \<^verbatim>\<open>ValueError\<close>.
\<close>

definition main :: "(string \<Rightarrow> datetime option) \<Rightarrow> (string \<Rightarrow> py_exception + repo) \<Rightarrow> args \<Rightarrow> run" where
  "main strptime Repo a =
     (case strptime (since a) of
        None \<Rightarrow> \<lparr> ended = Some (SystemExit 1), console = [InvalidDateFormat], files = [] \<rparr>
      | Some since_date \<Rightarrow>
          (let out0 = [CollectingCommits (since a) (repo_path a)]
           in case get_all_commits_from_date Repo (repo_path a) since_date of
                (out1, Inl stop) \<Rightarrow> \<lparr> ended = Some stop, console = out0 @ out1, files = [] \<rparr>
              | (out1, Inr all_commits) \<Rightarrow>
                  (if all_commits = []
                   then \<lparr> ended = None, console = out0 @ out1 @ [NoCommitsFound], files = [] \<rparr>
                   else
                     (let timeline_file = path_join (output_dir a) ''commit_timeline.png'';
                          network_file = path_join (output_dir a) ''commit_network.png'';
                          summary_file = path_join (output_dir a) ''commit_summary.json'';
                          (out2, w2) = create_commit_timeline_graph all_commits timeline_file;
                          (out3, w3) = create_commit_network_graph all_commits network_file;
                          (out4, w4) = write_summary_stats all_commits summary_file
                      in \<lparr> ended = None,
                           console = out0 @ out1 @ out2 @ out3 @ out4
                                     @ [GeneratedFiles timeline_file network_file summary_file],
                           files = w2 @ w3 @ w4 \<rparr>))))"

section \<open>Notions used in the statements\<close>

text \<open>
  The data-model invariant on one branch's commits: newest first, by authored time.
\<close>

definition newest_first :: "commit list \<Rightarrow> bool" where
  "newest_first commits = sorted_wrt (\<lambda>x y. y \<le> x) (map authored_date commits)"

text \<open>
  Comparing at calendar-day granularity: a date is a triple of year, month and day,
  ordered lexicographically, and \<open>day_of\<close> is the calendar that gives the date of a
  timestamp. The time of day of the cutoff plays no part.
\<close>

definition date_le :: "nat \<times> nat \<times> nat \<Rightarrow> nat \<times> nat \<times> nat \<Rightarrow> bool" where
  "date_le a b =
     (case a of (y1, m1, d1) \<Rightarrow> case b of (y2, m2, d2) \<Rightarrow>
        y1 < y2 \<or> (y1 = y2 \<and> (m1 < m2 \<or> (m1 = m2 \<and> d1 \<le> d2))))"


text \<open>The key of a commit node, and the keys of all commits within the cap of ten per branch.\<close>

definition short_sha :: "commit \<Rightarrow> string" where
  "short_sha c = take 8 (hexsha c)"

definition capped_commit_ids :: "collection \<Rightarrow> string list" where
  "capped_commit_ids all_commits =
     concat (map (\<lambda>(branch, commits). map short_sha (take 10 commits)) all_commits)"

text \<open>The \<^verbatim>\<open>node_type\<close> attribute of a node, if the node exists and has one.\<close>

definition ntype :: "graph \<Rightarrow> string \<Rightarrow> string option" where
  "ntype G k = (case map_of (nodes G) k of None \<Rightarrow> None | Some a \<Rightarrow> node_type a)"


section \<open>A worked example\<close>

text \<open>
  A small repository: \<^verbatim>\<open>main\<close> with three commits by two authors, the oldest of them
  authored on 10 January 2024 at 10:00 UTC, and \<^verbatim>\<open>feature/x\<close> with one commit of
  9 January; both are also refs of the remote \<^verbatim>\<open>origin\<close>. Its traversal filters by the
  day it is asked for, on the calendar of January 2024.
\<close>

definition c_export :: commit where
  "c_export = \<lparr> hexsha = ''9f2c41d7a05b3e6618c4d2f07a91b5e3c8d60f14'', author_name = ''Ada'',
                 authored_date = 1705312800, message = ''Add CSV export'' \<rparr>"

definition c_fix :: commit where
  "c_fix = \<lparr> hexsha = ''4b7e09a1c3d25f8866e1b0a94d7c2f53e0a18b6d'', author_name = ''Bob'',
              authored_date = 1705140000, message = ''Fix date parsing'' \<rparr>"

definition c_init :: commit where
  "c_init = \<lparr> hexsha = ''e13a5c7092bd4f6681a0c3e5d7f9b1246a8c0e2f'', author_name = ''Ada'',
               authored_date = 1704880800, message = ''Initial import'' \<rparr>"

definition c_old :: commit where
  "c_old = \<lparr> hexsha = ''0d6b8f2a4c1e3957b5d7f9a1c3e5082f4a6c8e0b'', author_name = ''Ada'',
              authored_date = 1704794400, message = ''Sketch feature x'' \<rparr>"

definition january_2024 :: "int \<Rightarrow> nat \<times> nat \<times> nat" where
  "january_2024 t = (2024, 1, nat (t div 86400 - 19722))"

definition demo_history :: "string \<Rightarrow> commit list option" where
  "demo_history revision =
     (if revision = ''main'' \<or> revision = ''origin/main'' then Some [c_export, c_fix, c_init]
      else if revision = ''feature/x'' \<or> revision = ''origin/feature/x'' then Some [c_old]
      else None)"

definition demo_since :: "string \<Rightarrow> nat \<times> nat \<times> nat" where
  "demo_since s = (if s = ''2024-01-10'' then (2024, 1, 10) else (2024, 2, 1))"

definition demo_iter_commits :: "string \<Rightarrow> string \<Rightarrow> py_exception + commit list" where
  "demo_iter_commits revision s =
     (case demo_history revision of
        None \<Rightarrow> Inl (GitCommandError ''bad revision'')
      | Some cs \<Rightarrow> Inr (filter (\<lambda>c. date_le (demo_since s) (january_2024 (authored_date c))) cs))"

definition demo_repo :: repo where
  "demo_repo = \<lparr> branches = [''main'', ''feature/x''],
                  remotes = [\<lparr> remote_name = ''origin'',
                               refs = [''origin/main'', ''origin/feature/x''] \<rparr>],
                  iter_commits = demo_iter_commits \<rparr>"


definition demo_strptime :: "string \<Rightarrow> datetime option" where
  "demo_strptime s =
     (if s = ''2024-01-10''
      then Some \<lparr> year = 2024, month = 1, day = 10, hour = 0, minute = 0, second = 0 \<rparr>
      else if s = ''2024-02-01''
      then Some \<lparr> year = 2024, month = 2, day = 1, hour = 0, minute = 0, second = 0 \<rparr>
      else None)"


definition demo_collection :: collection where
  "demo_collection = [(''main'', [c_export, c_fix, c_init]), (''origin/main'', [c_export, c_fix, c_init])]"

section \<open>The worked example, evaluated\<close>


lemma enumerate_demo: "enumerate_branches demo_repo = [''main'', ''feature/x'', ''origin/main'', ''origin/x'']"
  by code_simp


lemma demo_is_dict: "is_dict demo_collection"
  by code_simp

lemma demo_main: "map_of demo_collection ''main'' = Some [c_export, c_fix, c_init]"
  by code_simp

lemma demo_main_in: "(''main'', [c_export, c_fix, c_init]) \<in> set demo_collection"
  by (simp add: demo_collection_def)



section \<open>Properties of the summarizer\<close>

lemma update_fresh: "k \<notin> fst ` set d \<Longrightarrow> AList.update k v d = d @ [(k, v)]"
  by (induction d) auto

lemma stats_loop_append:
  "distinct (map fst al) \<Longrightarrow> fst ` set al \<inter> fst ` set stats = {} \<Longrightarrow>
   stats_loop al stats =
     stats @ map (\<lambda>(b, cs). (b, branch_entry cs)) (filter (\<lambda>(b, cs). cs \<noteq> []) al)"
proof (induction al stats rule: stats_loop.induct)
  case (1 stats)
  show ?case by simp
next
  case (2 branch commits rest stats)
  show ?case
  proof (cases "commits = []")
    case True
    with 2 show ?thesis by auto
  next
    case False
    have fresh: "branch \<notin> fst ` set stats"
      using 2(4) by auto
    have "fst ` set rest \<inter> fst ` set (AList.update branch (branch_entry commits) stats) = {}"
      using 2(3,4) by (auto simp: AList.dom_update)
    with 2 False show ?thesis
      by (simp add: update_fresh [OF fresh])
  qed
qed

lemma stats_loop_dict:
  "is_dict al \<Longrightarrow>
   stats_loop al [] = map (\<lambda>(b, cs). (b, branch_entry cs)) (filter (\<lambda>(b, cs). cs \<noteq> []) al)"
  using stats_loop_append [of al "[]"] by (simp add: is_dict_def)

lemma sum_entries:
  "sum_list (map (\<lambda>(b, st). commit_count st) (map (\<lambda>(b, cs). (b, branch_entry cs)) (filter (\<lambda>(b, cs). cs \<noteq> []) al)))
   = sum_list (map (\<lambda>commits. length commits) (map snd al))"
  by (induction al) (auto simp: branch_entry_def Let_def)

text \<open>
  Claim C4. For every Branch collection, the \<^verbatim>\<open>total_commits\<close> written by the summarizer
  is the sum of the \<^verbatim>\<open>commit_count\<close> fields over all entries of \<^verbatim>\<open>branch_stats\<close>, and
  \<^verbatim>\<open>total_branches\<close> is the number of branches of the collection.
\<close>

theorem total_commits_is_sum_of_counts:
  assumes "is_dict all_commits"
  shows "total_commits (create_summary_stats all_commits)
           = sum_list (map (\<lambda>(b, st). commit_count st) (branch_stats (create_summary_stats all_commits)))
         \<and> total_branches (create_summary_stats all_commits) = card (fst ` set all_commits)"
proof -
  have "length all_commits = card (fst ` set all_commits)"
    using assms by (metis is_dict_def distinct_card length_map set_map)
  moreover have "sum_list (map (\<lambda>(b, st). commit_count st) (stats_loop all_commits []))
                   = sum_list (map (\<lambda>commits. length commits) (map snd all_commits))"
    unfolding stats_loop_dict [OF assms] by (rule sum_entries)
  ultimately show ?thesis
    by (simp add: create_summary_stats_def)
qed

theorem total_commits_is_sum_of_counts_witness:
  "is_dict demo_collection
   \<and> total_commits (create_summary_stats demo_collection) = 6
   \<and> sum_list (map (\<lambda>(b, st). commit_count st) (branch_stats (create_summary_stats demo_collection))) = 6
   \<and> total_branches (create_summary_stats demo_collection) = 2
   \<and> card (fst ` set demo_collection) = 2"
proof -
  have t: "total_commits (create_summary_stats demo_collection) = 6"
    by code_simp
  have b: "total_branches (create_summary_stats demo_collection) = 2"
    by code_simp
  from total_commits_is_sum_of_counts [OF demo_is_dict] demo_is_dict t b show ?thesis
    by simp
qed

lemma stats_lookup:
  assumes "is_dict al"
  shows "map_of (stats_loop al []) b =
           (case map_of al b of None \<Rightarrow> None
            | Some cs \<Rightarrow> if cs \<noteq> [] then Some (branch_entry cs) else None)"
proof -
  have "map_of (map (\<lambda>(b, cs). (b, branch_entry cs)) (filter (\<lambda>(b, cs). cs \<noteq> []) al)) b =
          (case map_of al b of None \<Rightarrow> None
            | Some cs \<Rightarrow> if cs \<noteq> [] then Some (branch_entry cs) else None)"
    using assms unfolding is_dict_def
    by (induction al) (auto split: option.splits simp: rev_image_eqI)
  then show ?thesis using assms by (simp add: stats_loop_dict)
qed

lemma stats_keys:
  assumes "is_dict al"
  shows "fst ` set (stats_loop al []) = {b. \<exists>cs. (b, cs) \<in> set al \<and> cs \<noteq> []}"
  using assms by (force simp add: stats_loop_dict)

lemma stats_dict: "is_dict al \<Longrightarrow> is_dict (stats_loop al [])"
  unfolding is_dict_def 
  by (simp add: stats_loop_dict [unfolded is_dict_def] comp_def case_prod_beta distinct_map_filter)

text \<open>
  Claim C5. For every branch of the collection, the entry written for it has
  \<^verbatim>\<open>unique_authors\<close> equal to the number of distinct author names among the commits of
  that branch alone, and \<^verbatim>\<open>authors\<close> lists exactly those names, each once.
\<close>

theorem unique_authors_per_branch:
  assumes "is_dict all_commits" and "(branch, commits) \<in> set all_commits" and "commits \<noteq> []"
  shows "\<exists>st. map_of (branch_stats (create_summary_stats all_commits)) branch = Some st
            \<and> unique_authors st = card (author_name ` set commits)
            \<and> set (authors st) = author_name ` set commits
            \<and> distinct (authors st)"
proof -
  have "map_of all_commits branch = Some commits"
    using assms(1,2) by (simp add: is_dict_def)
  then have "map_of (branch_stats (create_summary_stats all_commits)) branch = Some (branch_entry commits)"
    using assms by (simp add: create_summary_stats_def stats_lookup)
  moreover have "unique_authors (branch_entry commits) = card (author_name ` set commits)"
    by (simp add: branch_entry_def Let_def length_remdups_card_conv)
  moreover have "set (authors (branch_entry commits)) = author_name ` set commits"
    by (simp add: branch_entry_def Let_def)
  moreover have "distinct (authors (branch_entry commits))"
    by (simp add: branch_entry_def Let_def)
  ultimately show ?thesis by blast
qed

theorem unique_authors_per_branch_witness:
  "is_dict demo_collection
   \<and> (''main'', [c_export, c_fix, c_init]) \<in> set demo_collection
   \<and> [c_export, c_fix, c_init] \<noteq> []
   \<and> (\<exists>st. map_of (branch_stats (create_summary_stats demo_collection)) ''main'' = Some st
            \<and> unique_authors st = card (author_name ` set [c_export, c_fix, c_init])
            \<and> set (authors st) = author_name ` set [c_export, c_fix, c_init]
            \<and> distinct (authors st))"
proof -
  have ne: "[c_export, c_fix, c_init] \<noteq> []" by simp
  from unique_authors_per_branch [OF demo_is_dict demo_main_in ne] demo_is_dict demo_main_in
  show ?thesis by simp
qed

lemma newest_first_hd: "newest_first cs \<Longrightarrow> cs \<noteq> [] \<Longrightarrow> authored_date (hd cs) = Max (authored_date ` set cs)"
  unfolding newest_first_def
  by (cases cs) (auto intro!: Max_eqI [symmetric])

lemma newest_first_last: "newest_first cs \<Longrightarrow> cs \<noteq> [] \<Longrightarrow> authored_date (last cs) = Min (authored_date ` set cs)"
  unfolding newest_first_def
proof (induction cs)
  case Nil then show ?case by simp
next
  case (Cons c cs)
  show ?case
  proof (cases "cs = []")
    case True then show ?thesis by simp
  next
    case False
    with Cons have last: "authored_date (last cs) = Min (authored_date ` set cs)" by simp
    have "Min (authored_date ` set cs) \<le> authored_date (hd cs)"
      using False by simp
    moreover have "authored_date (hd cs) \<le> authored_date c"
      using Cons.prems False by (cases cs) auto
    ultimately have le: "Min (authored_date ` set cs) \<le> authored_date c"
      by (meson order_trans)
    have fin: "finite (authored_date ` set cs)" and ne: "authored_date ` set cs \<noteq> {}"
      using False by simp_all
    have "Min (authored_date ` set (c # cs)) = Min (insert (authored_date c) (authored_date ` set cs))"
      by simp
    also have "\<dots> = min (authored_date c) (Min (authored_date ` set cs))"
      by (rule Min_insert [OF fin ne])
    also have "\<dots> = Min (authored_date ` set cs)"
      using le by (simp only: min_absorb2)
    finally show ?thesis using False last by simp
  qed
qed

text \<open>
  Claim C7. For every entry of \<^verbatim>\<open>branch_stats\<close>, \<^verbatim>\<open>latest_commit\<close> is the authored
  time of the first commit of that branch and \<^verbatim>\<open>oldest_commit\<close> that of the last; when
  the commits are ordered newest first these are the maximum and the minimum authored
  time of the branch.
\<close>

theorem latest_and_oldest_commit:
  assumes "is_dict all_commits"
    and "(branch, st) \<in> set (branch_stats (create_summary_stats all_commits))"
  shows "\<exists>commits. map_of all_commits branch = Some commits \<and> commits \<noteq> []
           \<and> latest_commit st = Some (authored_date (hd commits))
           \<and> oldest_commit st = Some (authored_date (last commits))
           \<and> (newest_first commits \<longrightarrow>
                latest_commit st = Some (Max (authored_date ` set commits))
              \<and> oldest_commit st = Some (Min (authored_date ` set commits)))"
proof -
  have "map_of (stats_loop all_commits []) branch = Some st"
    using assms stats_dict [OF assms(1)]
    by (simp add: create_summary_stats_def is_dict_def)
  then obtain commits where c: "map_of all_commits branch = Some commits" "commits \<noteq> []" "st = branch_entry commits"
    using assms(1) by (auto simp: stats_lookup split: option.splits if_splits)
  have "latest_commit st = Some (authored_date (hd commits))" "oldest_commit st = Some (authored_date (last commits))"
    using c by (simp_all add: branch_entry_def Let_def)
  then show ?thesis
    using c newest_first_hd [of commits] newest_first_last [of commits] by auto
qed

theorem latest_and_oldest_commit_witness:
  "is_dict demo_collection
   \<and> (''main'', branch_entry [c_export, c_fix, c_init])
         \<in> set (branch_stats (create_summary_stats demo_collection))
   \<and> newest_first [c_export, c_fix, c_init]
   \<and> latest_commit (branch_entry [c_export, c_fix, c_init])
         = Some (Max (authored_date ` set [c_export, c_fix, c_init]))
   \<and> oldest_commit (branch_entry [c_export, c_fix, c_init])
         = Some (Min (authored_date ` set [c_export, c_fix, c_init]))"
proof -
  have entry: "(''main'', branch_entry [c_export, c_fix, c_init])
                 \<in> set (branch_stats (create_summary_stats demo_collection))"
    by (simp add: create_summary_stats_def demo_collection_def)
  have sorted: "newest_first [c_export, c_fix, c_init]"
    by (simp add: newest_first_def c_export_def c_fix_def c_init_def)
  from latest_and_oldest_commit [OF demo_is_dict entry] demo_main sorted entry demo_is_dict
  show ?thesis by auto
qed

section \<open>Properties of the collector\<close>



lemma strftime_day_only:
  "strftime (d\<lparr>hour := h, minute := m, second := s\<rparr>) = strftime d"
  by (simp add: strftime_def)



section \<open>Properties of the network graph\<close>


lemma add_node_lookup:
  "map_of (nodes (add_node n f G)) =
     (map_of (nodes G))(n \<mapsto> f (case map_of (nodes G) n of None \<Rightarrow> no_attrs | Some a \<Rightarrow> a))"
  by (rule ext) (auto simp: add_node_def AList.update_conv' map_add_def split: option.splits)



lemma ensure_node_type:
  "(case map_of (ensure_node n ns) k of None \<Rightarrow> None | Some a \<Rightarrow> node_type a) =
   (case map_of ns k of None \<Rightarrow> None | Some a \<Rightarrow> node_type a)"
  by (auto simp: ensure_node_def no_attrs_def split: option.splits if_splits)


lemma ntype_add_edge: "ntype (add_edge u v G) = ntype G"
  by (rule ext) (simp add: ntype_def add_edge_def ensure_node_type)


lemma ntype_add_commit: "ntype (add_node n (commit_attrs c) G) = (ntype G)(n := Some ''commit'')"
  by (rule ext) (simp add: ntype_def add_node_lookup commit_attrs_def)

lemma ntype_add_branch: "ntype (add_node n (branch_attrs m) G) = (ntype G)(n := Some ''branch'')"
  by (rule ext) (simp add: ntype_def add_node_lookup branch_attrs_def)


lemma ntype_add_commit_nodes:
  "ntype (add_commit_nodes b cs G) k =
     (if k \<in> short_sha ` set cs then Some ''commit'' else ntype G k)"
  by (induction cs arbitrary: G)
     (auto simp: Let_def ntype_add_edge ntype_add_commit short_sha_def)



lemma capped_Nil: "capped_commit_ids [] = []"
  by (simp add: capped_commit_ids_def)

lemma capped_Cons:
  "capped_commit_ids ((b, cs) # rest) = map short_sha (take 10 cs) @ capped_commit_ids rest"
  by (simp add: capped_commit_ids_def)

lemma ntype_first_branch:
  "ntype (add_commit_nodes b (take 10 cs) (add_node b (branch_attrs m) G)) k =
     (if k \<in> short_sha ` set (take 10 cs) then Some ''commit''
      else if k = b then Some ''branch'' else ntype G k)"
  by (simp add: ntype_add_commit_nodes ntype_add_branch)


lemma ntype_build_graph:
  "fst ` set al \<inter> set (capped_commit_ids al) = {} \<Longrightarrow>
   ntype (build_graph al G) k =
     (if k \<in> set (capped_commit_ids al) then Some ''commit''
      else if k \<in> fst ` set al then Some ''branch'' else ntype G k)"
proof (induction al G rule: build_graph.induct)
  case (1 G)
  then show ?case by (simp add: capped_Nil)
next
  case (2 branch commits rest G)
  let ?G' = "add_commit_nodes branch (take 10 commits) (add_node branch (branch_attrs (length commits)) G)"
  have disj: "fst ` set rest \<inter> set (capped_commit_ids rest) = {}"
    using "2.prems" by (simp add: capped_Cons) blast
  have nb: "branch \<notin> set (capped_commit_ids rest)" "branch \<notin> short_sha ` set (take 10 commits)"
    using "2.prems" by (simp_all add: capped_Cons)
  have nr: "k \<in> fst ` set rest \<Longrightarrow> k \<notin> short_sha ` set (take 10 commits)"
    using "2.prems" by (simp add: capped_Cons) blast
  have "ntype (build_graph ((branch, commits) # rest) G) k = ntype (build_graph rest ?G') k"
    by simp
  also have "\<dots> = (if k \<in> set (capped_commit_ids rest) then Some ''commit''
      else if k \<in> fst ` set rest then Some ''branch'' else ntype ?G' k)"
    by (rule "2.IH" [OF disj])
  finally have step: "ntype (build_graph ((branch, commits) # rest) G) k =
      (if k \<in> set (capped_commit_ids rest) then Some ''commit''
       else if k \<in> fst ` set rest then Some ''branch'' else ntype ?G' k)" .
  show ?case
  proof (cases "k \<in> set (capped_commit_ids rest)")
    case True
    then show ?thesis unfolding step by (simp add: capped_Cons)
  next
    case False
    note not_rest = this
    show ?thesis
    proof (cases "k \<in> fst ` set rest")
      case True
      with not_rest nr show ?thesis unfolding step by (simp add: capped_Cons)
    next
      case False
      with not_rest nb show ?thesis unfolding step
        by (simp add: capped_Cons ntype_first_branch)
    qed
  qed
qed


lemma keys_filter:
  "fst ` set (filter (\<lambda>(n, a). f a = Some t) ns) = {k. \<exists>a. (k, a) \<in> set ns \<and> f a = Some t}"
  by (induction ns) auto

lemma typed_nodes_set:
  assumes "distinct (map fst ns)"
  shows "set (map fst (filter (\<lambda>(n, a). f a = Some t) ns))
           = {k. (case map_of ns k of None \<Rightarrow> None | Some a \<Rightarrow> f a) = Some t}"
proof -
  have "(\<exists>a. (k, a) \<in> set ns \<and> f a = Some t)
          \<longleftrightarrow> (case map_of ns k of None \<Rightarrow> None | Some a \<Rightarrow> f a) = Some t" for k
  proof (cases "map_of ns k")
    case None
    then have "(k, a) \<notin> set ns" for a
      by (metis weak_map_of_SomeI option.distinct(1))
    with None show ?thesis by simp
  next
    case (Some a)
    have "(k, a') \<in> set ns \<longleftrightarrow> a' = a" for a'
      using assms Some by (metis map_of_eq_Some_iff option.inject)
    with Some show ?thesis by simp
  qed
  then show ?thesis
    by (simp only: set_map keys_filter)
qed


lemma branch_nodes_set:
  "is_dict (nodes G) \<Longrightarrow> set (branch_nodes G) = {k. ntype G k = Some ''branch''}"
  unfolding branch_nodes_def ntype_def is_dict_def by (rule typed_nodes_set)







end
